theory Spec2Isabelle
  imports Complex_Main
begin

text \<open>
  A model of the voice memo bot: the summarizer of bot/llm.py, the record store of
  bot/database.py, and the delete command, the edit dialogue and the voice pipeline of
  bot/telegram_handler.py. The handlers of the python-telegram-bot variant
  (voice_memo_assistant/bot/telegram_handler.py) have the same bodies; where the two
  variants register their handlers differently, the model follows bot/telegram_handler.py.
  The first part holds the model, the second part its properties.
\<close>

section \<open>Python strings\<close>

text \<open>
  A Python \<^verbatim>\<open>str\<close> is a sequence of Unicode code points and \<^verbatim>\<open>len\<close> counts code
  points, so a string is modelled as the list of its code points. The literals of the
  source (most of them Cyrillic) are written out as code point lists; \<open>ascii\<close> embeds
  an ASCII literal.
\<close>

type_synonym pychar = nat
type_synonym pystr = "pychar list"

definition ascii :: "string \<Rightarrow> pystr" where
  "ascii s = map of_char s"

text \<open>
  \<^verbatim>\<open>str.isspace\<close> on one character: the code points that \<^verbatim>\<open>str.strip()\<close> removes.
\<close>

definition py_isspace :: "pychar \<Rightarrow> bool" where
  "py_isspace c \<longleftrightarrow>
     (9 \<le> c \<and> c \<le> 13) \<or> (28 \<le> c \<and> c \<le> 32) \<or> c = 133 \<or> c = 160 \<or> c = 5760 \<or>
     (8192 \<le> c \<and> c \<le> 8202) \<or> c = 8232 \<or> c = 8233 \<or> c = 8239 \<or> c = 8287 \<or> c = 12288"

definition py_strip :: "pystr \<Rightarrow> pystr" where
  "py_strip s = rev (dropWhile py_isspace (rev (dropWhile py_isspace s)))"

text \<open>
  The regular expression class \<^verbatim>\<open>\d\<close> on a \<^verbatim>\<open>str\<close> pattern is the Unicode category Nd,
  and \<^verbatim>\<open>int\<close> reads every such character by its decimal value. Nd consists of runs of
  ten consecutive code points, each run starting at the digit zero of one script;
  \<open>nd_zeros\<close> lists the starts (Unicode 14.0, the table of CPython 3.11).
\<close>

definition nd_zeros :: "pychar list" where
  "nd_zeros =
     [48, 1632, 1776, 1984, 2406, 2534, 2662, 2790, 2918, 3046, 3174, 3302, 3430, 3558,
      3664, 3792, 3872, 4160, 4240, 6112, 6160, 6470, 6608, 6784, 6800, 6992, 7088, 7232,
      7248, 42528, 43216, 43264, 43472, 43504, 43600, 44016, 65296, 66720, 68912, 69734,
      69872, 69942, 70096, 70384, 70736, 70864, 71248, 71360, 71472, 71904, 72016, 72784,
      73040, 73120, 92768, 92864, 93008, 120782, 120792, 120802, 120812, 120822, 123200,
      123632, 125264, 130032]"

definition decimal_value :: "pychar \<Rightarrow> nat option" where
  "decimal_value c =
     (case find (\<lambda>z. z \<le> c \<and> c \<le> z + 9) nd_zeros of
        None \<Rightarrow> None
      | Some z \<Rightarrow> Some (c - z))"

text \<open>Membership in \<^verbatim>\<open>\d\<close> (the same characters as \<^verbatim>\<open>str.isdecimal\<close>).\<close>

definition py_isdecimal :: "pychar \<Rightarrow> bool" where
  "py_isdecimal c \<longleftrightarrow> decimal_value c \<noteq> None"

text \<open>\<^verbatim>\<open>int(s)\<close> on a non-empty string of decimal digits.\<close>

definition py_int :: "pystr \<Rightarrow> nat" where
  "py_int ds = foldl (\<lambda>acc c. 10 * acc + (case decimal_value c of None \<Rightarrow> 0 | Some d \<Rightarrow> d)) 0 ds"

text \<open>\<^verbatim>\<open>str(n)\<close> for a non-negative integer, as \<^verbatim>\<open>str.format\<close> renders it.\<close>

fun py_str_of_nat :: "nat \<Rightarrow> pystr" where
  "py_str_of_nat n =
     (if n < 10 then [48 + n] else py_str_of_nat (n div 10) @ [48 + n mod 10])"

declare py_str_of_nat.simps [simp del]

section \<open>Summarizer (bot/llm.py)\<close>

text \<open>
  \<^verbatim>\<open>PROMPT_SUMMARY_TEMPLATE\<close> of constants.py, cut at its three placeholders
  \<^verbatim>\<open>{min_len}\<close>, \<^verbatim>\<open>{max_len}\<close> and \<^verbatim>\<open>{text}\<close>.
\<close>

definition PROMPT_PART_1 :: pystr where
  "PROMPT_PART_1 =
     [10, 1057, 1076, 1077, 1083, 1072, 1081, 32, 1082, 1088, 1072, 1090, 1082, 1086, 1077,
      32, 1088, 1077, 1079, 1102, 1084, 1077, 32, 1086, 1073, 1098, 1105, 1084, 1086, 1084,
      32, 1086, 1090, 32]"

definition PROMPT_PART_2 :: pystr where
  "PROMPT_PART_2 = [32, 1076, 1086, 32]"

definition PROMPT_PART_3 :: pystr where
  "PROMPT_PART_3 =
     [32, 1089, 1080, 1084, 1074, 1086, 1083, 1086, 1074, 32, 10, 1076, 1083, 1103, 32, 1089,
      1083, 1077, 1076, 1091, 1102, 1097, 1077, 1075, 1086, 32, 1075, 1086, 1083, 1086, 1089,
      1086, 1074, 1086, 1075, 1086, 32, 1089, 1086, 1086, 1073, 1097, 1077, 1085, 1080, 1103,
      58, 10, 10]"

definition PROMPT_PART_4 :: pystr where
  "PROMPT_PART_4 = [10]"

definition format_prompt :: "nat \<Rightarrow> nat \<Rightarrow> pystr \<Rightarrow> pystr" where
  "format_prompt min_len max_len text =
     PROMPT_PART_1 @ py_str_of_nat min_len @ PROMPT_PART_2 @ py_str_of_nat max_len @
     PROMPT_PART_3 @ text @ PROMPT_PART_4"

text \<open>
  The target window of \<^verbatim>\<open>summarize\<close>: fixed below 500 characters of input, the
  ratios 5:1 and 3:1 from there on.
\<close>

definition summary_window :: "pystr \<Rightarrow> nat \<times> nat" where
  "summary_window text =
     (let n = length text in
      if n < 500 then (150, 250) else (max 150 (n div 5), n div 3))"

text \<open>
  The handler reads its parameters with \<^verbatim>\<open>config.get(key, default)\<close>; a key that is
  absent is \<open>None\<close> here.
\<close>

record config =
  SUMMARY_DEVIATION_PERCENT :: "int option"
  SUMMARY_MAX_TRIES :: "int option"

record llm_handler =
  use_local :: bool
  config :: config

definition config_get :: "int option \<Rightarrow> int \<Rightarrow> int" where
  "config_get v dflt = (case v of None \<Rightarrow> dflt | Some x \<Rightarrow> x)"

datatype py_exception =
  UnboundLocalError | RequestException | DownloadError | TranscriptionError

text \<open>
  What one call of the generation endpoint does: it delivers a text (the \<^verbatim>\<open>response\<close>
  field of the Ollama reply, the content of the first OpenAI choice) or the call
  fails (timeout, connection or HTTP error). The endpoint is outside the program, so
  it is a parameter: \<open>backend k prompt\<close> is the outcome of the \<open>k\<close>-th call (from 0) of
  one \<^verbatim>\<open>summarize\<close> when it is sent \<open>prompt\<close>.
\<close>

datatype call_outcome = Response pystr | Fault

type_synonym backend = "nat \<Rightarrow> pystr \<Rightarrow> call_outcome"

definition APOLOGY_TEXT :: pystr where
  "APOLOGY_TEXT =
     [1054, 1096, 1080, 1073, 1082, 1072, 32, 1087, 1088, 1080, 32, 1075, 1077, 1085, 1077,
      1088, 1072, 1094, 1080, 1080, 32, 1088, 1077, 1079, 1102, 1084, 1077, 46, 32, 1055,
      1086, 1078, 1072, 1083, 1091, 1081, 1089, 1090, 1072, 44, 32, 1087, 1086, 1087, 1088,
      1086, 1073, 1091, 1081, 1090, 1077, 32, 1087, 1086, 1079, 1078, 1077, 46]"

text \<open>
  \<^verbatim>\<open>_ollama_call\<close> and \<^verbatim>\<open>_openai_call\<close>: the text is stripped; the \<^verbatim>\<open>except\<close> clause
  logs the fault and returns the apology.
\<close>

definition ollama_call :: "(pystr \<Rightarrow> call_outcome) \<Rightarrow> pystr \<Rightarrow> pystr" where
  "ollama_call endpoint prompt =
     (case endpoint prompt of
        Response s \<Rightarrow> py_strip s
      | Fault \<Rightarrow> APOLOGY_TEXT)"

definition openai_call :: "(pystr \<Rightarrow> call_outcome) \<Rightarrow> pystr \<Rightarrow> pystr" where
  "openai_call endpoint prompt =
     (case endpoint prompt of
        Response s \<Rightarrow> py_strip s
      | Fault \<Rightarrow> APOLOGY_TEXT)"

text \<open>The closure \<^verbatim>\<open>_generate\<close> of \<^verbatim>\<open>summarize\<close>, at its \<open>k\<close>-th call.\<close>

definition generate :: "llm_handler \<Rightarrow> backend \<Rightarrow> nat \<Rightarrow> nat \<Rightarrow> pystr \<Rightarrow> nat \<Rightarrow> pystr" where
  "generate h b min_len max_len text k =
     (let prompt = format_prompt min_len max_len text in
      py_strip (if use_local h then ollama_call (b k) prompt else openai_call (b k) prompt))"

text \<open>
  The tolerance window. The source computes both products in double precision; the
  model computes them exactly.
\<close>

definition min_allowed :: "int \<Rightarrow> nat \<Rightarrow> real" where
  "min_allowed deviation_percent min_len =
     real min_len * (1 - real_of_int deviation_percent / 100)"

definition max_allowed :: "int \<Rightarrow> nat \<Rightarrow> real" where
  "max_allowed deviation_percent max_len =
     real max_len * (1 + real_of_int deviation_percent / 100)"

record summarize_result =
  sr_summary :: pystr
  sr_calls :: nat
  sr_warned :: bool

text \<open>
  The \<^verbatim>\<open>for attempt in range(max_tries)\<close> loop. \<open>summary\<close> is the local variable of
  that name (unbound before the first iteration), \<open>warned\<close> records the
  \<^verbatim>\<open>logging.warning\<close> of the last attempt; every iteration makes one call, so the
  attempt counter at exit is the number of calls made.
\<close>

function summarize_loop ::
  "(nat \<Rightarrow> pystr) \<Rightarrow> real \<Rightarrow> real \<Rightarrow> int \<Rightarrow> nat \<Rightarrow> pystr option \<Rightarrow> bool
     \<Rightarrow> pystr option \<times> nat \<times> bool" where
  "summarize_loop gen lo hi max_tries attempt summary warned =
     (if int attempt < max_tries then
        (let s = gen attempt; len = length s in
         if lo \<le> real len \<and> real len \<le> hi then (Some s, attempt + 1, warned)
         else summarize_loop gen lo hi max_tries (attempt + 1) (Some s)
                (warned \<or> int attempt = max_tries - 1))
      else (summary, attempt, warned))"
  by pat_completeness auto
termination
  by (relation "measure (\<lambda>(gen, lo, hi, max_tries, attempt, summary, warned).
        nat (max_tries - int attempt))") auto

declare summarize_loop.simps [simp del]

definition summarize :: "llm_handler \<Rightarrow> backend \<Rightarrow> pystr \<Rightarrow> py_exception + summarize_result" where
  "summarize h b text =
     (let deviation_percent = config_get (SUMMARY_DEVIATION_PERCENT (config h)) 20;
          max_tries = max 1 (config_get (SUMMARY_MAX_TRIES (config h)) 2);
          (min_len, max_len) = summary_window text;
          lo = min_allowed deviation_percent min_len;
          hi = max_allowed deviation_percent max_len
      in case summarize_loop (generate h b min_len max_len text) lo hi max_tries 0 None False of
           (None, n, w) \<Rightarrow> Inl UnboundLocalError
         | (Some s, n, w) \<Rightarrow> Inr \<lparr>sr_summary = s, sr_calls = n, sr_warned = w\<rparr>)"

text \<open>Vocabulary for the properties of \<^verbatim>\<open>summarize\<close>.\<close>

definition deviation_percent :: "llm_handler \<Rightarrow> int" where
  "deviation_percent h = config_get (SUMMARY_DEVIATION_PERCENT (config h)) 20"

definition max_tries :: "llm_handler \<Rightarrow> int" where
  "max_tries h = max 1 (config_get (SUMMARY_MAX_TRIES (config h)) 2)"


definition attempt_output :: "llm_handler \<Rightarrow> backend \<Rightarrow> pystr \<Rightarrow> nat \<Rightarrow> pystr" where
  "attempt_output h b text k =
     generate h b (fst (summary_window text)) (snd (summary_window text)) text k"

definition accepted :: "real \<Rightarrow> real \<Rightarrow> pystr \<Rightarrow> bool" where
  "accepted lo hi s \<longleftrightarrow> lo \<le> real (length s) \<and> real (length s) \<le> hi"

definition in_allowed :: "llm_handler \<Rightarrow> pystr \<Rightarrow> pystr \<Rightarrow> bool" where
  "in_allowed h text s \<longleftrightarrow>
     min_allowed (deviation_percent h) (fst (summary_window text)) \<le> real (length s) \<and>
     real (length s) \<le> max_allowed (deviation_percent h) (snd (summary_window text))"


section \<open>Record store (bot/database.py)\<close>

text \<open>
  The table \<^verbatim>\<open>voice_messages\<close> is the list of its rows in insertion order, together with
  the counter that SQLite keeps for an \<^verbatim>\<open>AUTOINCREMENT\<close> key. Each method is modelled by
  the meaning of its one SQL statement; integers are mathematical integers. The columns
  \<^verbatim>\<open>text\<close>, \<^verbatim>\<open>summarized\<close> and \<^verbatim>\<open>sent_at\<close> only ever receive the \<^verbatim>\<open>str\<close> arguments of
  \<^verbatim>\<open>save_message\<close>; \<^verbatim>\<open>note\<close> and \<^verbatim>\<open>username\<close> may be NULL.
\<close>

record row =
  col_id :: nat
  col_telegram_file_id :: pystr
  col_text :: pystr
  col_summarized :: pystr
  col_note :: "pystr option"
  col_sent_at :: pystr
  col_user_id :: int
  col_username :: "pystr option"

record database =
  rows :: "row list"
  sqlite_sequence :: nat

definition empty_database :: database where
  "empty_database = \<lparr>rows = [], sqlite_sequence = 0\<rparr>"

definition max_rowid :: "database \<Rightarrow> nat" where
  "max_rowid db = foldr (\<lambda>r m. max (col_id r) m) (rows db) 0"

text \<open>
  \<^verbatim>\<open>INSERT ... ON CONFLICT(telegram_file_id) DO UPDATE SET ... RETURNING id\<close>. SQLite
  draws the next key before it meets the conflict, so the counter advances on both
  branches; the conflict branch rewrites five columns of the existing row and returns
  that row's key.
\<close>

definition save_message ::
  "database \<Rightarrow> pystr \<Rightarrow> pystr \<Rightarrow> pystr \<Rightarrow> pystr \<Rightarrow> int \<Rightarrow> pystr option \<Rightarrow> nat \<times> database" where
  "save_message db telegram_file_id text summary sent_at user_id username =
     (let new_id = max (sqlite_sequence db) (max_rowid db) + 1 in
      case find (\<lambda>r. col_telegram_file_id r = telegram_file_id) (rows db) of
        None \<Rightarrow>
          (new_id,
           \<lparr>rows = rows db @
              [\<lparr>col_id = new_id, col_telegram_file_id = telegram_file_id, col_text = text,
                col_summarized = summary, col_note = None, col_sent_at = sent_at,
                col_user_id = user_id, col_username = username\<rparr>],
            sqlite_sequence = new_id\<rparr>)
      | Some existing \<Rightarrow>
          (col_id existing,
           \<lparr>rows = map (\<lambda>r. if col_telegram_file_id r = telegram_file_id
                            then r\<lparr>col_text := text, col_summarized := summary,
                                   col_sent_at := sent_at, col_user_id := user_id,
                                   col_username := username\<rparr>
                            else r) (rows db),
            sqlite_sequence = new_id\<rparr>))"

definition fetch_record_by_id :: "database \<Rightarrow> nat \<Rightarrow> row option" where
  "fetch_record_by_id db record_id = find (\<lambda>r. col_id r = record_id) (rows db)"

definition fetch_record_by_telegram_file_id :: "database \<Rightarrow> pystr \<Rightarrow> row option" where
  "fetch_record_by_telegram_file_id db telegram_file_id =
     find (\<lambda>r. col_telegram_file_id r = telegram_file_id) (rows db)"

text \<open>
  \<^verbatim>\<open>DELETE\<close> and \<^verbatim>\<open>UPDATE\<close> return \<^verbatim>\<open>cursor.rowcount > 0\<close>; the row count of an
  \<^verbatim>\<open>UPDATE\<close> is the number of rows that satisfy its \<^verbatim>\<open>WHERE\<close> clause.
\<close>

definition delete_record_by_id :: "database \<Rightarrow> nat \<Rightarrow> bool \<times> database" where
  "delete_record_by_id db record_id =
     (let rowcount = length (filter (\<lambda>r. col_id r = record_id) (rows db)) in
      (rowcount > 0, db\<lparr>rows := filter (\<lambda>r. col_id r \<noteq> record_id) (rows db)\<rparr>))"

definition delete_record_by_telegram_file_id :: "database \<Rightarrow> pystr \<Rightarrow> bool \<times> database" where
  "delete_record_by_telegram_file_id db telegram_file_id =
     (let rowcount = length (filter (\<lambda>r. col_telegram_file_id r = telegram_file_id) (rows db)) in
      (rowcount > 0,
       db\<lparr>rows := filter (\<lambda>r. col_telegram_file_id r \<noteq> telegram_file_id) (rows db)\<rparr>))"

definition update_summary :: "database \<Rightarrow> nat \<Rightarrow> pystr \<Rightarrow> bool \<times> database" where
  "update_summary db record_id new_summary =
     (let rowcount = length (filter (\<lambda>r. col_id r = record_id) (rows db)) in
      (rowcount > 0,
       db\<lparr>rows := map (\<lambda>r. if col_id r = record_id then r\<lparr>col_summarized := new_summary\<rparr> else r)
                     (rows db)\<rparr>))"

definition add_note_to_record :: "database \<Rightarrow> nat \<Rightarrow> pystr \<Rightarrow> bool \<times> database" where
  "add_note_to_record db record_id note =
     (let rowcount = length (filter (\<lambda>r. col_id r = record_id) (rows db)) in
      (rowcount > 0,
       db\<lparr>rows := map (\<lambda>r. if col_id r = record_id then r\<lparr>col_note := Some note\<rparr> else r)
                     (rows db)\<rparr>))"

text \<open>
  What the schema and the key generator maintain: keys and file ids are unique
  (\<^verbatim>\<open>PRIMARY KEY\<close>, \<^verbatim>\<open>UNIQUE\<close>), keys start at 1 and never exceed the counter.
\<close>

definition wf_database :: "database \<Rightarrow> bool" where
  "wf_database db \<longleftrightarrow>
     distinct (map col_id (rows db)) \<and>
     distinct (map col_telegram_file_id (rows db)) \<and>
     list_all (\<lambda>r. 1 \<le> col_id r \<and> col_id r \<le> sqlite_sequence db) (rows db)"

section \<open>Delete command (bot/telegram_handler.py)\<close>

definition MSG_DELETE_SUCCESS_PRE :: pystr where
  "MSG_DELETE_SUCCESS_PRE = [9989, 32, 1047, 1072, 1087, 1080, 1089, 1100, 32, 35]"

definition MSG_DELETE_SUCCESS_POST :: pystr where
  "MSG_DELETE_SUCCESS_POST = [32, 1091, 1076, 1072, 1083, 1077, 1085, 1072, 46]"

text \<open>\<^verbatim>\<open>MSG_DELETE_SUCCESS.format(record_id=record_id)\<close>.\<close>

definition MSG_DELETE_SUCCESS :: "nat \<Rightarrow> pystr" where
  "MSG_DELETE_SUCCESS record_id =
     MSG_DELETE_SUCCESS_PRE @ py_str_of_nat record_id @ MSG_DELETE_SUCCESS_POST"

definition MSG_DELETE_NOT_FOUND :: pystr where
  "MSG_DELETE_NOT_FOUND =
     [10067, 32, 1047, 1072, 1087, 1080, 1089, 1100, 32, 1085, 1077, 32, 1085, 1072, 1081,
      1076, 1077, 1085, 1072, 46]"

definition MSG_RECORD_DELETED :: pystr where
  "MSG_RECORD_DELETED =
     [9989, 32, 1047, 1072, 1087, 1080, 1089, 1100, 32, 1091, 1076, 1072, 1083, 1077, 1085,
      1072, 46]"

text \<open>
  The last answer of \<^verbatim>\<open>on_delete_command\<close> is written as five adjacent literals: a
  headline, an introduction and the three accepted forms of the command.
\<close>

definition USAGE_LINE_1 :: pystr where
  "USAGE_LINE_1 =
     [10067, 32, 1053, 1077, 32, 1091, 1076, 1072, 1083, 1086, 1089, 1100, 32, 1086, 1087,
      1088, 1077, 1076, 1077, 1083, 1080, 1090, 1100, 32, 1079, 1072, 1087, 1080, 1089,
      1100, 32, 1076, 1083, 1103, 32, 1091, 1076, 1072, 1083, 1077, 1085, 1080, 1103, 46,
      10]"

definition USAGE_LINE_2 :: pystr where
  "USAGE_LINE_2 =
     [1048, 1089, 1087, 1086, 1083, 1100, 1079, 1091, 1081, 1090, 1077, 32, 1092, 1086,
      1088, 1084, 1072, 1090, 1099, 58, 10]"

definition USAGE_LINE_3 :: pystr where
  "USAGE_LINE_3 = [49, 46, 32, 47, 100, 101, 108, 101, 116, 101, 32, 35, 49, 50, 51, 10]"

definition USAGE_LINE_4 :: pystr where
  "USAGE_LINE_4 =
     [50, 46, 32, 1054, 1090, 1074, 1077, 1090, 1086, 1084, 32, 1085, 1072, 32, 1075, 1086,
      1083, 1086, 1089, 1086, 1074, 1086, 1077, 32, 1089, 1086, 1086, 1073, 1097, 1077,
      1085, 1080, 1077, 10]"

definition USAGE_LINE_5 :: pystr where
  "USAGE_LINE_5 =
     [51, 46, 32, 1054, 1090, 1074, 1077, 1090, 1086, 1084, 32, 1085, 1072, 32, 1089, 1086,
      1086, 1073, 1097, 1077, 1085, 1080, 1077, 32, 1089, 32, 1088, 1077, 1079, 1102, 1084,
      1077]"

definition MSG_DELETE_USAGE :: pystr where
  "MSG_DELETE_USAGE = USAGE_LINE_1 @ USAGE_LINE_2 @ USAGE_LINE_3 @ USAGE_LINE_4 @ USAGE_LINE_5"

text \<open>
  A text message and the message it replies to, with the attributes the handlers read:
  the file id of the replied message's voice attachment and its text, each absent
  (\<open>None\<close>) when the replied message has none.
\<close>

record replied_message =
  reply_voice :: "pystr option"
  reply_text :: "pystr option"

record message =
  msg_text :: pystr
  reply_to_message :: "replied_message option"

text \<open>
  Group 1 of \<^verbatim>\<open>re.search(r"#?(\d+)$", text)\<close>: the search returns the leftmost match,
  whose group is the longest run of digits before the anchor; \<^verbatim>\<open>$\<close> stands at the end
  of the string and also just before a newline that ends the string.
\<close>

definition search_trailing_id :: "pystr \<Rightarrow> pystr option" where
  "search_trailing_id text =
     (let body = (if text \<noteq> [] \<and> last text = 10 then butlast text else text);
          digits = rev (takeWhile py_isdecimal (rev body))
      in if digits = [] then None else Some digits)"

text \<open>Group 1 of \<^verbatim>\<open>re.search(r"^#(\d+)", text)\<close> (and of \<^verbatim>\<open>re.match\<close> with that pattern).\<close>

definition search_leading_id :: "pystr \<Rightarrow> pystr option" where
  "search_leading_id text =
     (case text of
        [] \<Rightarrow> None
      | c # rest \<Rightarrow>
          if c = 35 then
            (let digits = takeWhile py_isdecimal rest in
             if digits = [] then None else Some digits)
          else None)"

definition on_delete_command :: "database \<Rightarrow> message \<Rightarrow> pystr \<times> database" where
  "on_delete_command db message =
     (let text = py_strip (msg_text message) in
      case search_trailing_id text of
        Some group1 \<Rightarrow>
          (let record_id = py_int group1;
               (deleted, db') = delete_record_by_id db record_id
           in if deleted then (MSG_DELETE_SUCCESS record_id, db')
              else (MSG_DELETE_NOT_FOUND, db'))
      | None \<Rightarrow>
          (case reply_to_message message of
             None \<Rightarrow> (MSG_DELETE_USAGE, db)
           | Some reply \<Rightarrow>
               (case reply_voice reply of
                  Some file_id \<Rightarrow>
                    (let (deleted, db') = delete_record_by_telegram_file_id db file_id
                     in if deleted then (MSG_RECORD_DELETED, db')
                        else (MSG_DELETE_NOT_FOUND, db'))
                | None \<Rightarrow>
                    (case reply_text reply of
                       None \<Rightarrow> (MSG_DELETE_USAGE, db)
                     | Some rtext \<Rightarrow>
                         if rtext = [] then (MSG_DELETE_USAGE, db)
                         else
                           (case search_leading_id rtext of
                              None \<Rightarrow> (MSG_DELETE_USAGE, db)
                            | Some group1 \<Rightarrow>
                                (let record_id = py_int group1;
                                     (deleted, db') = delete_record_by_id db record_id
                                 in if deleted then (MSG_DELETE_SUCCESS record_id, db')
                                    else (MSG_DELETE_NOT_FOUND, db')))))))"

text \<open>
  The three strategies as the specification words them, each on its own, and their
  combination in priority order.
\<close>

datatype target = By_id nat | By_file_id pystr

definition strategy_trailing_id :: "message \<Rightarrow> target option" where
  "strategy_trailing_id m =
     map_option (\<lambda>g. By_id (py_int g)) (search_trailing_id (py_strip (msg_text m)))"

definition strategy_replied_voice :: "message \<Rightarrow> target option" where
  "strategy_replied_voice m =
     (case reply_to_message m of
        None \<Rightarrow> None
      | Some reply \<Rightarrow> map_option By_file_id (reply_voice reply))"

definition strategy_replied_summary :: "message \<Rightarrow> target option" where
  "strategy_replied_summary m =
     (case reply_to_message m of
        None \<Rightarrow> None
      | Some reply \<Rightarrow>
          (case reply_text reply of
             None \<Rightarrow> None
           | Some rtext \<Rightarrow> map_option (\<lambda>g. By_id (py_int g)) (search_leading_id rtext)))"

definition first_match :: "'a option list \<Rightarrow> 'a option" where
  "first_match candidates = (case List.map_filter id candidates of [] \<Rightarrow> None | t # _ \<Rightarrow> Some t)"

definition resolve_target :: "message \<Rightarrow> target option" where
  "resolve_target m =
     first_match [strategy_trailing_id m, strategy_replied_voice m, strategy_replied_summary m]"

definition delete_target :: "database \<Rightarrow> target \<Rightarrow> pystr \<times> database" where
  "delete_target db t =
     (case t of
        By_id record_id \<Rightarrow>
          (if fst (delete_record_by_id db record_id)
           then (MSG_DELETE_SUCCESS record_id, snd (delete_record_by_id db record_id))
           else (MSG_DELETE_NOT_FOUND, snd (delete_record_by_id db record_id)))
      | By_file_id file_id \<Rightarrow>
          (if fst (delete_record_by_telegram_file_id db file_id)
           then (MSG_RECORD_DELETED, snd (delete_record_by_telegram_file_id db file_id))
           else (MSG_DELETE_NOT_FOUND, snd (delete_record_by_telegram_file_id db file_id))))"

definition target_in_store :: "database \<Rightarrow> target \<Rightarrow> bool" where
  "target_in_store db t =
     (case t of
        By_id record_id \<Rightarrow> fetch_record_by_id db record_id \<noteq> None
      | By_file_id file_id \<Rightarrow> fetch_record_by_telegram_file_id db file_id \<noteq> None)"

section \<open>Edit dialogue (bot/telegram_handler.py)\<close>

definition MSG_REPLY_TO_SUMMARY_HINT :: pystr where
  "MSG_REPLY_TO_SUMMARY_HINT =
     [1063, 1090, 1086, 1073, 1099, 32, 1086, 1090, 1088, 1077, 1076, 1072, 1082, 1090,
      1080, 1088, 1086, 1074, 1072, 1090, 1100, 32, 1088, 1077, 1079, 1102, 1084, 1077, 32,
      1080, 1083, 1080, 32, 1076, 1086, 1073, 1072, 1074, 1080, 1090, 1100, 32, 1087, 1088,
      1080, 1084, 1077, 1095, 1072, 1085, 1080, 1077, 44, 32, 1086, 1090, 1074, 1077, 1090,
      1100, 1090, 1077, 32, 1085, 1072, 32, 1089, 1086, 1086, 1073, 1097, 1077, 1085, 1080,
      1077, 32, 1089, 32, 1088, 1077, 1079, 1102, 1084, 1077, 32, 40, 1082, 1086, 1090,
      1086, 1088, 1086, 1077, 32, 1085, 1072, 1095, 1080, 1085, 1072, 1077, 1090, 1089,
      1103, 32, 1089, 32, 35, 73, 68, 41, 46]"

definition MSG_EDIT_OR_ADD_NOTE_PROMPT :: pystr where
  "MSG_EDIT_OR_ADD_NOTE_PROMPT =
     [1063, 1090, 1086, 32, 1074, 1099, 32, 1093, 1086, 1090, 1080, 1090, 1077, 32, 1089,
      1076, 1077, 1083, 1072, 1090, 1100, 32, 1089, 32, 1090, 1077, 1082, 1089, 1090, 1086,
      1084, 63]"

definition MSG_SUMMARY_UPDATED :: pystr where
  "MSG_SUMMARY_UPDATED =
     [9989, 32, 1056, 1077, 1079, 1102, 1084, 1077, 32, 1086, 1073, 1085, 1086, 1074, 1083,
      1077, 1085, 1086, 46]"

definition MSG_NOTE_ADDED :: pystr where
  "MSG_NOTE_ADDED =
     [9989, 32, 1055, 1088, 1080, 1084, 1077, 1095, 1072, 1085, 1080, 1077, 32, 1076, 1086,
      1073, 1072, 1074, 1083, 1077, 1085, 1086, 46]"

definition MSG_GENERIC_ERROR :: pystr where
  "MSG_GENERIC_ERROR =
     [1055, 1088, 1086, 1080, 1079, 1086, 1096, 1083, 1072, 32, 1086, 1096, 1080, 1073,
      1082, 1072, 46, 32, 1055, 1086, 1078, 1072, 1083, 1091, 1081, 1089, 1090, 1072, 44,
      32, 1087, 1086, 1087, 1088, 1086, 1073, 1091, 1081, 1090, 1077, 32, 1089, 1085, 1086,
      1074, 1072, 46]"

definition MSG_CANCELLED :: pystr where
  "MSG_CANCELLED =
     [1054, 1087, 1077, 1088, 1072, 1094, 1080, 1103, 32, 1086, 1090, 1084, 1077, 1085,
      1077, 1085, 1072, 46]"

text \<open>
  The dialogue state of one user in one chat: the state of the finite state machine
  (\<open>IDLE\<close> when no state is set, \<open>AWAITING_CHOICE\<close> for \<^verbatim>\<open>EditStates.waiting_for_choice\<close>)
  and the two entries \<^verbatim>\<open>record_id\<close> and \<^verbatim>\<open>new_text\<close> of its data dictionary.
\<close>

datatype fsm_state = IDLE | AWAITING_CHOICE

record session =
  fsm_state :: fsm_state
  data_record_id :: "nat option"
  data_new_text :: "pystr option"

text \<open>\<^verbatim>\<open>state.clear()\<close> resets the state and empties the data.\<close>

definition cleared_session :: session where
  "cleared_session = \<lparr>fsm_state = IDLE, data_record_id = None, data_new_text = None\<rparr>"

definition on_reply_to_summary_for_edit ::
  "database \<Rightarrow> session \<Rightarrow> message \<Rightarrow> pystr \<times> session" where
  "on_reply_to_summary_for_edit db s message =
     (case reply_to_message message of
        None \<Rightarrow> (MSG_REPLY_TO_SUMMARY_HINT, s)
      | Some reply \<Rightarrow>
          (case reply_text reply of
             None \<Rightarrow> (MSG_REPLY_TO_SUMMARY_HINT, s)
           | Some rtext \<Rightarrow>
               if rtext = [] then (MSG_REPLY_TO_SUMMARY_HINT, s)
               else
                 (case search_leading_id rtext of
                    None \<Rightarrow> (MSG_REPLY_TO_SUMMARY_HINT, s)
                  | Some group1 \<Rightarrow>
                      (let record_id = py_int group1 in
                       case fetch_record_by_id db record_id of
                         None \<Rightarrow> (MSG_DELETE_NOT_FOUND, s)
                       | Some record \<Rightarrow>
                           (MSG_EDIT_OR_ADD_NOTE_PROMPT,
                            s\<lparr>fsm_state := AWAITING_CHOICE,
                              data_record_id := Some record_id,
                              data_new_text := Some (msg_text message)\<rparr>)))))"

text \<open>
  The test \<^verbatim>\<open>if record_id and new_text\<close>: both entries are present, the id is not 0
  and the text is not empty.
\<close>

definition pending :: "session \<Rightarrow> (nat \<times> pystr) option" where
  "pending s =
     (case data_record_id s of
        None \<Rightarrow> None
      | Some record_id \<Rightarrow>
          (case data_new_text s of
             None \<Rightarrow> None
           | Some new_text \<Rightarrow>
               if record_id \<noteq> 0 \<and> new_text \<noteq> [] then Some (record_id, new_text) else None))"

definition handle_edit_summary_callback ::
  "database \<Rightarrow> session \<Rightarrow> pystr \<times> database \<times> session" where
  "handle_edit_summary_callback db s =
     (case pending s of
        Some (record_id, new_text) \<Rightarrow>
          (let (updated, db') = update_summary db record_id new_text in
           if updated then (MSG_SUMMARY_UPDATED, db', cleared_session)
           else (MSG_DELETE_NOT_FOUND, db', cleared_session))
      | None \<Rightarrow> (MSG_GENERIC_ERROR, db, cleared_session))"

definition handle_add_note_callback ::
  "database \<Rightarrow> session \<Rightarrow> pystr \<times> database \<times> session" where
  "handle_add_note_callback db s =
     (case pending s of
        Some (record_id, note_text) \<Rightarrow>
          (let (updated, db') = add_note_to_record db record_id note_text in
           if updated then (MSG_NOTE_ADDED, db', cleared_session)
           else (MSG_DELETE_NOT_FOUND, db', cleared_session))
      | None \<Rightarrow> (MSG_GENERIC_ERROR, db, cleared_session))"

definition handle_cancel_callback ::
  "database \<Rightarrow> session \<Rightarrow> pystr \<times> database \<times> session" where
  "handle_cancel_callback db s = (MSG_CANCELLED, db, cleared_session)"

text \<open>
  The routing that \<^verbatim>\<open>setup_handlers\<close> registers for the dialogue. An update carries the
  time it was sent (seconds); no filter and no handler reads it, and the dispatcher's
  \<^verbatim>\<open>MemoryStorage\<close> keeps a state until it is cleared. A text message enters the dialogue
  when it is a reply, has text and does not start with a slash; a callback query
  reaches its handler when its data matches and the state is \<open>AWAITING_CHOICE\<close>. Any
  other update is left to the handlers outside the dialogue and is \<open>None\<close> here.
\<close>

datatype payload = Text_message message | Callback_query pystr

record update =
  upd_date :: nat
  upd_payload :: payload

record bot_state =
  bot_db :: database
  bot_session :: session

definition feed_update :: "bot_state \<Rightarrow> update \<Rightarrow> pystr option \<times> bot_state" where
  "feed_update st u =
     (case upd_payload u of
        Text_message m \<Rightarrow>
          if reply_to_message m \<noteq> None \<and> msg_text m \<noteq> [] \<and> hd (msg_text m) \<noteq> 47 then
            (let (answer, s') = on_reply_to_summary_for_edit (bot_db st) (bot_session st) m
             in (Some answer, st\<lparr>bot_session := s'\<rparr>))
          else (None, st)
      | Callback_query data \<Rightarrow>
          if fsm_state (bot_session st) = AWAITING_CHOICE \<and> data = ascii ''edit'' then
            (let (answer, db', s') = handle_edit_summary_callback (bot_db st) (bot_session st)
             in (Some answer, \<lparr>bot_db = db', bot_session = s'\<rparr>))
          else if fsm_state (bot_session st) = AWAITING_CHOICE \<and> data = ascii ''note'' then
            (let (answer, db', s') = handle_add_note_callback (bot_db st) (bot_session st)
             in (Some answer, \<lparr>bot_db = db', bot_session = s'\<rparr>))
          else if fsm_state (bot_session st) = AWAITING_CHOICE \<and> data = ascii ''cancel'' then
            (let (answer, db', s') = handle_cancel_callback (bot_db st) (bot_session st)
             in (Some answer, \<lparr>bot_db = db', bot_session = s'\<rparr>))
          else (None, st))"

text \<open>A sequence of updates, fed one after the other.\<close>

fun feed_updates :: "bot_state \<Rightarrow> update list \<Rightarrow> bot_state" where
  "feed_updates st [] = st"
| "feed_updates st (u # us) = feed_updates (snd (feed_update st u)) us"

section \<open>Voice pipeline (bot/telegram_handler.py)\<close>

definition MSG_VOICE_PROCESSING :: pystr where
  "MSG_VOICE_PROCESSING =
     [128260, 32, 1054, 1073, 1088, 1072, 1073, 1072, 1090, 1099, 1074, 1072, 1102, 32,
      1075, 1086, 1083, 1086, 1089, 1086, 1074, 1086, 1077, 32, 1089, 1086, 1086, 1073,
      1097, 1077, 1085, 1080, 1077, 46, 46, 46]"

definition MSG_RECOGNITION_FAILED :: pystr where
  "MSG_RECOGNITION_FAILED =
     [1053, 1077, 32, 1091, 1076, 1072, 1083, 1086, 1089, 1100, 32, 1088, 1072, 1089, 1087,
      1086, 1079, 1085, 1072, 1090, 1100, 32, 1090, 1077, 1082, 1089, 1090, 46, 32, 1055,
      1086, 1078, 1072, 1083, 1091, 1081, 1089, 1090, 1072, 44, 32, 1087, 1086, 1087, 1088,
      1086, 1073, 1091, 1081, 1090, 1077, 32, 1077, 1097, 1077, 32, 1088, 1072, 1079, 46]"

definition MSG_PROCESSING_FAILED :: pystr where
  "MSG_PROCESSING_FAILED =
     [1055, 1088, 1086, 1080, 1079, 1086, 1096, 1083, 1072, 32, 1086, 1096, 1080, 1073,
      1082, 1072, 32, 1087, 1088, 1080, 32, 1086, 1073, 1088, 1072, 1073, 1086, 1090, 1082,
      1077, 32, 1089, 1086, 1086, 1073, 1097, 1077, 1085, 1080, 1103, 46, 32, 1055, 1086,
      1078, 1072, 1083, 1091, 1081, 1089, 1090, 1072, 44, 32, 1087, 1086, 1087, 1088, 1086,
      1073, 1091, 1081, 1090, 1077, 32, 1087, 1086, 1079, 1078, 1077, 46]"

definition REPLY_HEADER_PART_2 :: pystr where
  "REPLY_HEADER_PART_2 =
     [10, 128204, 32, 1056, 1077, 1079, 1102, 1084, 1077, 58, 10, 96, 96, 96, 10]"

definition REPLY_HEADER_PART_3 :: pystr where
  "REPLY_HEADER_PART_3 = [10, 96, 96, 96]"

text \<open>\<^verbatim>\<open>SUMMARY_REPLY_HEADER_TEMPLATE.format(record_id=record_id, summary=summary)\<close>.\<close>

definition SUMMARY_REPLY_HEADER :: "nat \<Rightarrow> pystr \<Rightarrow> pystr" where
  "SUMMARY_REPLY_HEADER record_id summary =
     [35] @ py_str_of_nat record_id @ REPLY_HEADER_PART_2 @ summary @ REPLY_HEADER_PART_3"

text \<open>
  A voice message with the attributes \<^verbatim>\<open>on_voice\<close> reads. The collaborators are
  parameters: \<open>download\<close> is the transport (\<^verbatim>\<open>get_file\<close> and \<^verbatim>\<open>download_file\<close>),
  \<open>transcribe\<close> is \<^verbatim>\<open>transcribe_ogg_bytes\<close>, \<open>sent_at\<close> is the value of \<^verbatim>\<open>Utils.now_utc()\<close>;
  each of the first two returns its value or raises. The outcome lists the texts shown
  to the user (the processing notice, then the text that replaces it), the store
  afterwards and the number of calls made to the generation endpoint.
\<close>

type_synonym bytes = "nat list"

record voice_message =
  voice_file_id :: pystr
  from_user_id :: int
  from_username :: "pystr option"

record voice_outcome =
  shown :: "pystr list"
  store :: database
  llm_calls :: nat

definition on_voice ::
  "llm_handler \<Rightarrow> backend \<Rightarrow> (pystr \<Rightarrow> py_exception + bytes) \<Rightarrow> (bytes \<Rightarrow> py_exception + pystr)
     \<Rightarrow> pystr \<Rightarrow> database \<Rightarrow> voice_message \<Rightarrow> voice_outcome" where
  "on_voice llm b download transcribe sent_at db message =
     (let file_id = voice_file_id message;
          failed = \<lparr>shown = [MSG_VOICE_PROCESSING, MSG_PROCESSING_FAILED], store = db, llm_calls = 0\<rparr>
      in
      case download file_id of
        Inl e \<Rightarrow> failed
      | Inr ogg_bytes \<Rightarrow>
          (case transcribe ogg_bytes of
             Inl e \<Rightarrow> failed
           | Inr text \<Rightarrow>
               if length text < 5 then
                 \<lparr>shown = [MSG_VOICE_PROCESSING, MSG_RECOGNITION_FAILED], store = db, llm_calls = 0\<rparr>
               else
                 (case summarize llm b text of
                    Inl e \<Rightarrow> failed
                  | Inr r \<Rightarrow>
                      (let (record_id, db') =
                             save_message db file_id text (sr_summary r) sent_at
                               (from_user_id message) (from_username message)
                       in \<lparr>shown = [MSG_VOICE_PROCESSING,
                                    SUMMARY_REPLY_HEADER record_id (sr_summary r)],
                           store = db', llm_calls = sr_calls r\<rparr>))))"

section \<open>Vocabulary for the properties of the store and of the delete command\<close>

text \<open>The row that the conflict branch of \<^verbatim>\<open>save_message\<close> leaves in place of \<open>r\<close>.\<close>

definition conflict_update ::
  "pystr \<Rightarrow> pystr \<Rightarrow> pystr \<Rightarrow> int \<Rightarrow> pystr option \<Rightarrow> row \<Rightarrow> row" where
  "conflict_update t s a u n r =
     r\<lparr>col_text := t, col_summarized := s, col_sent_at := a, col_user_id := u,
       col_username := n\<rparr>"

text \<open>The number of rows that carry a given file id.\<close>

definition count_file_id :: "database \<Rightarrow> pystr \<Rightarrow> nat" where
  "count_file_id db f = length (filter (\<lambda>r. col_telegram_file_id r = f) (rows db))"

text \<open>
  A text that goes on after a run of digits: it ends in a character that is not a digit,
  and a digit occurs before its last run of such characters.
\<close>

definition ends_after_digit_run :: "pystr \<Rightarrow> bool" where
  "ends_after_digit_run t \<longleftrightarrow>
     takeWhile (\<lambda>c. \<not> py_isdecimal c) (rev t) \<noteq> [] \<and>
     dropWhile (\<lambda>c. \<not> py_isdecimal c) (rev t) \<noteq> []"

section \<open>Properties of the summarizer\<close>

lemma summarize_loop_spec:
  "int a < mt \<Longrightarrow>
   \<exists>k\<ge>a. int k < mt \<and>
     summarize_loop gen lo hi mt a sm w = (Some (gen k), Suc k, w \<or> \<not> accepted lo hi (gen k)) \<and>
     (\<forall>j. a \<le> j \<and> j < k \<longrightarrow> \<not> accepted lo hi (gen j)) \<and>
     (accepted lo hi (gen k) \<or> int k = mt - 1)"
proof (induction gen lo hi mt a sm w rule: summarize_loop.induct)
  case (1 gen lo hi mt a sm w)
  show ?case
  proof (cases "accepted lo hi (gen a)")
    case True
    with "1.prems" have
      "summarize_loop gen lo hi mt a sm w = (Some (gen a), Suc a, w \<or> \<not> accepted lo hi (gen a))"
      by (subst summarize_loop.simps) (simp add: accepted_def Let_def)
    with True "1.prems" show ?thesis
      by (intro exI [of _ a]) auto
  next
    case False
    with "1.prems" have step:
      "summarize_loop gen lo hi mt a sm w =
         summarize_loop gen lo hi mt (a + 1) (Some (gen a)) (w \<or> int a = mt - 1)"
      by (subst summarize_loop.simps) (auto simp add: accepted_def Let_def)
    show ?thesis
    proof (cases "int (a + 1) < mt")
      case True
      have nacc: "\<not> (lo \<le> real (length (gen a)) \<and> real (length (gen a)) \<le> hi)"
        using False by (simp add: accepted_def)
      from "1.IH" [OF "1.prems" refl refl nacc True]
      obtain k where k: "a + 1 \<le> k" "int k < mt"
        "summarize_loop gen lo hi mt (a + 1) (Some (gen a)) (w \<or> int a = mt - 1) =
           (Some (gen k), Suc k, (w \<or> int a = mt - 1) \<or> \<not> accepted lo hi (gen k))"
        "\<forall>j. a + 1 \<le> j \<and> j < k \<longrightarrow> \<not> accepted lo hi (gen j)"
        "accepted lo hi (gen k) \<or> int k = mt - 1"
        by blast
      from True have "int a \<noteq> mt - 1" by simp
      with k(3) step have res:
        "summarize_loop gen lo hi mt a sm w = (Some (gen k), Suc k, w \<or> \<not> accepted lo hi (gen k))"
        by simp
      have "\<forall>j. a \<le> j \<and> j < k \<longrightarrow> \<not> accepted lo hi (gen j)"
      proof (intro allI impI)
        fix j assume j: "a \<le> j \<and> j < k"
        show "\<not> accepted lo hi (gen j)"
        proof (cases "j = a")
          case True with False show ?thesis by simp
        next
          case False with j k(4) show ?thesis by simp
        qed
      qed
      with k res show ?thesis
        by (intro exI [of _ k]) auto
    next
      case last: False
      with "1.prems" have eq: "int a = mt - 1" by simp
      from last have "summarize_loop gen lo hi mt (a + 1) (Some (gen a)) (w \<or> int a = mt - 1) =
          (Some (gen a), a + 1, w \<or> int a = mt - 1)"
        by (subst summarize_loop.simps) simp
      with step eq False have
        "summarize_loop gen lo hi mt a sm w = (Some (gen a), Suc a, w \<or> \<not> accepted lo hi (gen a))"
        by simp
      with eq "1.prems" show ?thesis
        by (intro exI [of _ a]) auto
    qed
  qed
qed


lemma summarize_unfold:
  "summarize h b t =
     (case summarize_loop (attempt_output h b t)
             (min_allowed (deviation_percent h) (fst (summary_window t)))
             (max_allowed (deviation_percent h) (snd (summary_window t)))
             (max_tries h) 0 None False of
        (None, n, w) \<Rightarrow> Inl UnboundLocalError
      | (Some s, n, w) \<Rightarrow> Inr \<lparr>sr_summary = s, sr_calls = n, sr_warned = w\<rparr>)"
proof -
  have eq: "generate h b (fst (summary_window t)) (snd (summary_window t)) t =
      attempt_output h b t"
    by (rule ext) (simp add: attempt_output_def)
  show ?thesis
    by (simp add: summarize_def deviation_percent_def max_tries_def Let_def split_beta eq
          cong: option.case_cong)
qed

lemma max_tries_pos: "1 \<le> max_tries h"
  by (simp add: max_tries_def)

lemma summarize_result:
  "\<exists>k. int k < max_tries h \<and>
     summarize h b t =
       Inr \<lparr>sr_summary = attempt_output h b t k, sr_calls = k + 1,
            sr_warned = (\<not> in_allowed h t (attempt_output h b t k))\<rparr> \<and>
     (\<forall>j<k. \<not> in_allowed h t (attempt_output h b t j)) \<and>
     (in_allowed h t (attempt_output h b t k) \<or> int k = max_tries h - 1)"
proof -
  have "int 0 < max_tries h" using max_tries_pos [of h] by simp
  from summarize_loop_spec [OF this, of "attempt_output h b t"
      "min_allowed (deviation_percent h) (fst (summary_window t))"
      "max_allowed (deviation_percent h) (snd (summary_window t))" None False]
  obtain k where k: "int k < max_tries h"
    "summarize_loop (attempt_output h b t)
       (min_allowed (deviation_percent h) (fst (summary_window t)))
       (max_allowed (deviation_percent h) (snd (summary_window t)))
       (max_tries h) 0 None False =
     (Some (attempt_output h b t k), Suc k,
      False \<or> \<not> accepted (min_allowed (deviation_percent h) (fst (summary_window t)))
        (max_allowed (deviation_percent h) (snd (summary_window t))) (attempt_output h b t k))"
    "\<forall>j. 0 \<le> j \<and> j < k \<longrightarrow>
       \<not> accepted (min_allowed (deviation_percent h) (fst (summary_window t)))
        (max_allowed (deviation_percent h) (snd (summary_window t))) (attempt_output h b t j)"
    "accepted (min_allowed (deviation_percent h) (fst (summary_window t)))
        (max_allowed (deviation_percent h) (snd (summary_window t))) (attempt_output h b t k)
     \<or> int k = max_tries h - 1"
    by blast
  have acc: "\<And>s. accepted (min_allowed (deviation_percent h) (fst (summary_window t)))
        (max_allowed (deviation_percent h) (snd (summary_window t))) s = in_allowed h t s"
    by (simp add: accepted_def in_allowed_def)
  show ?thesis
    using k unfolding acc
    by (intro exI [of _ k]) (simp add: summarize_unfold)
qed














section \<open>Properties of the store\<close>

lemma rowcount_positive_iff:
  "(filter P xs \<noteq> []) \<longleftrightarrow> (\<exists>y. find P xs = Some y)"
  by (induction xs) auto


lemma update_summary_result:
  "fst (update_summary db rid s) = (fetch_record_by_id db rid \<noteq> None)"
  by (simp add: update_summary_def fetch_record_by_id_def Let_def rowcount_positive_iff)




lemma add_note_result:
  "fst (add_note_to_record db rid n) = (fetch_record_by_id db rid \<noteq> None)"
  by (simp add: add_note_to_record_def fetch_record_by_id_def Let_def rowcount_positive_iff)







lemma max_rowid_upper: "r \<in> set (rows db) \<Longrightarrow> col_id r \<le> max_rowid db"
proof -
  have "r \<in> set xs \<Longrightarrow> col_id r \<le> foldr (\<lambda>r m. max (col_id r) m) xs 0" for xs
    by (induction xs) auto
  then show "r \<in> set (rows db) \<Longrightarrow> col_id r \<le> max_rowid db"
    by (simp add: max_rowid_def)
qed

lemma save_message_conflict:
  "find (\<lambda>r. col_telegram_file_id r = f) (rows db) = Some e \<Longrightarrow>
   save_message db f t s a u n =
     (col_id e,
      \<lparr>rows = map (\<lambda>r. if col_telegram_file_id r = f then conflict_update t s a u n r else r)
                (rows db),
       sqlite_sequence = max (sqlite_sequence db) (max_rowid db) + 1\<rparr>)"
  by (simp add: save_message_def Let_def conflict_update_def)

lemma save_message_insert:
  "find (\<lambda>r. col_telegram_file_id r = f) (rows db) = None \<Longrightarrow>
   save_message db f t s a u n =
     (max (sqlite_sequence db) (max_rowid db) + 1,
      \<lparr>rows = rows db @
         [\<lparr>col_id = max (sqlite_sequence db) (max_rowid db) + 1, col_telegram_file_id = f,
           col_text = t, col_summarized = s, col_note = None, col_sent_at = a,
           col_user_id = u, col_username = n\<rparr>],
       sqlite_sequence = max (sqlite_sequence db) (max_rowid db) + 1\<rparr>)"
  by (simp add: save_message_def Let_def)

lemma conflict_update_keys [simp]:
  "col_id (conflict_update t s a u n r) = col_id r"
  "col_telegram_file_id (conflict_update t s a u n r) = col_telegram_file_id r"
  "col_note (conflict_update t s a u n r) = col_note r"
  by (simp_all add: conflict_update_def)

lemma map_conflict_ids:
  "map col_id (map (\<lambda>r. if col_telegram_file_id r = f then conflict_update t s a u n r else r) xs)
     = map col_id xs"
  by (induction xs) auto

lemma map_conflict_file_ids:
  "map col_telegram_file_id
     (map (\<lambda>r. if col_telegram_file_id r = f then conflict_update t s a u n r else r) xs)
     = map col_telegram_file_id xs"
  by (induction xs) auto

lemma find_file_None_iff:
  "find (\<lambda>r. col_telegram_file_id r = f) xs = None \<longleftrightarrow> f \<notin> set (map col_telegram_file_id xs)"
  by (induction xs) auto

lemma wf_save_message:
  assumes "wf_database db"
  shows "wf_database (snd (save_message db f t s a u n))"
proof (cases "find (\<lambda>r. col_telegram_file_id r = f) (rows db)")
  case None
  let ?new = "max (sqlite_sequence db) (max_rowid db) + 1"
  have fresh: "?new \<notin> set (map col_id (rows db))"
  proof
    assume "?new \<in> set (map col_id (rows db))"
    then obtain r where "r \<in> set (rows db)" "col_id r = ?new" by auto
    with max_rowid_upper [of r db] show False by simp
  qed
  from None have nof: "f \<notin> set (map col_telegram_file_id (rows db))"
    by (simp add: find_file_None_iff)
  from assms have bound: "list_all (\<lambda>r. 1 \<le> col_id r \<and> col_id r \<le> ?new) (rows db)"
    by (auto simp add: wf_database_def list_all_iff)
  from assms fresh nof bound show ?thesis
    by (simp add: save_message_insert [OF None] wf_database_def)
next
  case (Some e)
  let ?new = "max (sqlite_sequence db) (max_rowid db) + 1"
  from assms have bound: "list_all (\<lambda>r. 1 \<le> col_id r \<and> col_id r \<le> ?new) (rows db)"
    by (auto simp add: wf_database_def list_all_iff)
  then have "list_all (\<lambda>r. 1 \<le> col_id r \<and> col_id r \<le> ?new)
      (map (\<lambda>r. if col_telegram_file_id r = f then conflict_update t s a u n r else r) (rows db))"
    by (auto simp add: list_all_iff)
  with assms show ?thesis
    by (simp add: save_message_conflict [OF Some] wf_database_def map_conflict_ids
          map_conflict_file_ids del: map_map)
qed

lemma find_snoc:
  "find P (xs @ [x]) = (case find P xs of None \<Rightarrow> (if P x then Some x else None) | Some y \<Rightarrow> Some y)"
  by (induction xs) auto

lemma find_after_save:
  "\<exists>e. find (\<lambda>r. col_telegram_file_id r = f) (rows (snd (save_message db f t s a u n))) = Some e \<and>
       col_id e = fst (save_message db f t s a u n)"
proof (cases "find (\<lambda>r. col_telegram_file_id r = f) (rows db)")
  case None
  then show ?thesis
    by (simp add: save_message_insert [OF None] find_snoc)
next
  case (Some e)
  have "find P xs = Some e \<Longrightarrow>
      find P (map (\<lambda>r. if P r then g r else r) xs) = Some (g e)"
    if "\<And>r. P r \<Longrightarrow> P (g r)" for P :: "row \<Rightarrow> bool" and g xs
    using that by (induction xs) (auto split: if_splits)
  from this [of "\<lambda>r. col_telegram_file_id r = f" "conflict_update t s a u n" "rows db"] Some
  show ?thesis
    by (simp add: save_message_conflict [OF Some])
qed

lemma find_map_conflict:
  "find (\<lambda>r. col_telegram_file_id r = f) xs = Some e \<Longrightarrow>
   find (\<lambda>r. col_telegram_file_id r = f)
     (map (\<lambda>r. if col_telegram_file_id r = f then conflict_update t s a u n r else r) xs) =
   Some (conflict_update t s a u n e)"
  by (induction xs) (auto split: if_splits)

lemma count_distinct_file:
  "distinct (map col_telegram_file_id xs) \<Longrightarrow>
   find (\<lambda>r. col_telegram_file_id r = f) xs = Some e \<Longrightarrow>
   length (filter (\<lambda>r. col_telegram_file_id r = f) xs) = 1"
proof (induction xs)
  case Nil
  then show ?case by simp
next
  case (Cons x xs)
  show ?case
  proof (cases "col_telegram_file_id x = f")
    case True
    with Cons.prems(1) have "f \<notin> set (map col_telegram_file_id xs)" by auto
    then have "filter (\<lambda>r. col_telegram_file_id r = f) xs = []"
      by (auto simp add: filter_empty_conv)
    with True show ?thesis by simp
  next
    case False
    with Cons show ?thesis by simp
  qed
qed


lemma save_message_twice:
  fixes db :: database and f t1 s1 a1 t2 s2 a2 :: pystr and u1 u2 :: int
    and n1 n2 :: "pystr option"
  assumes wf: "wf_database db"
  defines "first \<equiv> save_message db f t1 s1 a1 u1 n1"
  defines "second \<equiv> save_message (snd first) f t2 s2 a2 u2 n2"
  shows "fst second = fst first"
    and "count_file_id (snd second) f = 1"
    and "\<exists>e. fetch_record_by_telegram_file_id (snd first) f = Some e \<and> col_id e = fst first \<and>
           fetch_record_by_telegram_file_id (snd second) f =
             Some (e\<lparr>col_text := t2, col_summarized := s2, col_sent_at := a2,
                     col_user_id := u2, col_username := n2\<rparr>)"
    and "map col_id (rows (snd second)) = map col_id (rows (snd first))"
    and "map col_telegram_file_id (rows (snd second)) =
           map col_telegram_file_id (rows (snd first))"
    and "\<forall>i<length (rows (snd first)).
           col_telegram_file_id (rows (snd first) ! i) \<noteq> f \<longrightarrow>
           rows (snd second) ! i = rows (snd first) ! i"
proof -
  from find_after_save [of f db t1 s1 a1 u1 n1]
  obtain e where e: "find (\<lambda>r. col_telegram_file_id r = f) (rows (snd first)) = Some e"
    "col_id e = fst first"
    unfolding first_def by blast
  have second: "second =
     (col_id e,
      \<lparr>rows = map (\<lambda>r. if col_telegram_file_id r = f then conflict_update t2 s2 a2 u2 n2 r else r)
                (rows (snd first)),
       sqlite_sequence = max (sqlite_sequence (snd first)) (max_rowid (snd first)) + 1\<rparr>)"
    unfolding second_def by (rule save_message_conflict [OF e(1)])
  from wf have wf1: "wf_database (snd first)"
    unfolding first_def by (rule wf_save_message)
  show "fst second = fst first"
    using e(2) by (simp add: second)
  show ids: "map col_id (rows (snd second)) = map col_id (rows (snd first))"
    by (simp add: second map_conflict_ids del: map_map)
  show files: "map col_telegram_file_id (rows (snd second)) =
      map col_telegram_file_id (rows (snd first))"
    by (simp add: second map_conflict_file_ids del: map_map)
  have found: "find (\<lambda>r. col_telegram_file_id r = f) (rows (snd second)) =
      Some (conflict_update t2 s2 a2 u2 n2 e)"
    using find_map_conflict [OF e(1)] by (simp add: second)
  from wf1 have "distinct (map col_telegram_file_id (rows (snd second)))"
    by (simp add: files wf_database_def)
  from count_distinct_file [OF this found]
  show "count_file_id (snd second) f = 1"
    by (simp add: count_file_id_def)
  show "\<exists>e. fetch_record_by_telegram_file_id (snd first) f = Some e \<and> col_id e = fst first \<and>
           fetch_record_by_telegram_file_id (snd second) f =
             Some (e\<lparr>col_text := t2, col_summarized := s2, col_sent_at := a2,
                     col_user_id := u2, col_username := n2\<rparr>)"
    using e found
    by (intro exI [of _ e]) (simp add: fetch_record_by_telegram_file_id_def conflict_update_def)
  show "\<forall>i<length (rows (snd first)).
           col_telegram_file_id (rows (snd first) ! i) \<noteq> f \<longrightarrow>
           rows (snd second) ! i = rows (snd first) ! i"
    by (simp add: second)
qed

text \<open>
  Claim C6. Two calls of \<^verbatim>\<open>save_message\<close> with the same file id, whatever the other
  arguments: the second call returns the id the first returned, the store then holds
  exactly one row with that file id, and that row is the row the first call left, with
  its text, summary, time, user id and user name replaced by the arguments of the
  second call. The keys and the file ids of all rows are the same before and after the
  second call, and rows with another file id are untouched.
\<close>

theorem save_message_upsert:
  assumes "wf_database db"
  shows
    "let first = save_message db f t1 s1 a1 u1 n1;
         second = save_message (snd first) f t2 s2 a2 u2 n2
     in fst second = fst first \<and>
        count_file_id (snd second) f = 1 \<and>
        (\<exists>e. fetch_record_by_telegram_file_id (snd first) f = Some e \<and> col_id e = fst first \<and>
           fetch_record_by_telegram_file_id (snd second) f =
             Some (e\<lparr>col_text := t2, col_summarized := s2, col_sent_at := a2,
                     col_user_id := u2, col_username := n2\<rparr>)) \<and>
        map col_id (rows (snd second)) = map col_id (rows (snd first)) \<and>
        map col_telegram_file_id (rows (snd second)) =
          map col_telegram_file_id (rows (snd first)) \<and>
        (\<forall>i<length (rows (snd first)).
           col_telegram_file_id (rows (snd first) ! i) \<noteq> f \<longrightarrow>
           rows (snd second) ! i = rows (snd first) ! i)"
  unfolding Let_def
  using save_message_twice [OF assms, of f t1 s1 a1 u1 n1 t2 s2 a2 u2 n2]
  by blast

lemma wf_empty_database: "wf_database empty_database"
  by (simp add: wf_database_def empty_database_def)

text \<open>Two saves of one file id into the empty store.\<close>

theorem save_message_upsert_witness:
  "wf_database empty_database \<and>
   fst (save_message empty_database [102] [116] [115] [49] 7 None) = 1 \<and>
   save_message (snd (save_message empty_database [102] [116] [115] [49] 7 None))
       [102] [117] [118] [50] 8 (Some [110]) =
     (1, \<lparr>rows = [\<lparr>col_id = 1, col_telegram_file_id = [102], col_text = [117],
                   col_summarized = [118], col_note = None, col_sent_at = [50],
                   col_user_id = 8, col_username = Some [110]\<rparr>],
          sqlite_sequence = 2\<rparr>) \<and>
   count_file_id (snd (save_message (snd (save_message empty_database [102] [116] [115] [49] 7 None))
       [102] [117] [118] [50] 8 (Some [110]))) [102] = 1"
  using save_message_upsert [OF wf_empty_database, of "[102]" "[116]" "[115]" "[49]" 7 None
      "[117]" "[118]" "[50]" 8 "Some [110]"]
  by (simp add: Let_def wf_database_def save_message_def empty_database_def max_rowid_def
        count_file_id_def)

text \<open>
  Well-formedness is kept by every method that writes to the store (for \<^verbatim>\<open>save_message\<close>
  this is \<open>wf_save_message\<close> above), and the empty store is well-formed.
\<close>

lemma wf_filter_rows:
  "wf_database db \<Longrightarrow> wf_database (db\<lparr>rows := filter P (rows db)\<rparr>)"
  by (auto simp add: wf_database_def list_all_iff distinct_map_filter)

lemma wf_delete_record_by_id:
  "wf_database db \<Longrightarrow> wf_database (snd (delete_record_by_id db record_id))"
  by (simp add: delete_record_by_id_def Let_def wf_filter_rows)

lemma wf_delete_record_by_telegram_file_id:
  "wf_database db \<Longrightarrow> wf_database (snd (delete_record_by_telegram_file_id db f))"
  by (simp add: delete_record_by_telegram_file_id_def Let_def wf_filter_rows)

lemma wf_update_summary:
  "wf_database db \<Longrightarrow> wf_database (snd (update_summary db record_id s))"
proof -
  have ids: "map col_id (map (\<lambda>r. if col_id r = record_id then r\<lparr>col_summarized := s\<rparr> else r) xs)
      = map col_id xs" for xs
    by (induction xs) auto
  have files: "map col_telegram_file_id
      (map (\<lambda>r. if col_id r = record_id then r\<lparr>col_summarized := s\<rparr> else r) xs)
      = map col_telegram_file_id xs" for xs
    by (induction xs) auto
  assume "wf_database db"
  then show ?thesis
    by (auto simp add: wf_database_def update_summary_def Let_def ids files list_all_iff
          simp del: map_map)
qed

lemma wf_add_note_to_record:
  "wf_database db \<Longrightarrow> wf_database (snd (add_note_to_record db record_id n))"
proof -
  have ids: "map col_id (map (\<lambda>r. if col_id r = record_id then r\<lparr>col_note := Some n\<rparr> else r) xs)
      = map col_id xs" for xs
    by (induction xs) auto
  have files: "map col_telegram_file_id
      (map (\<lambda>r. if col_id r = record_id then r\<lparr>col_note := Some n\<rparr> else r) xs)
      = map col_telegram_file_id xs" for xs
    by (induction xs) auto
  assume "wf_database db"
  then show ?thesis
    by (auto simp add: wf_database_def add_note_to_record_def Let_def ids files list_all_iff
          simp del: map_map)
qed

section \<open>Properties of the delete command\<close>

lemma py_strip_last:
  "py_strip s \<noteq> [] \<Longrightarrow> \<not> py_isspace (last (py_strip s))"
proof -
  assume ne: "py_strip s \<noteq> []"
  let ?ys = "dropWhile py_isspace (rev (dropWhile py_isspace s))"
  from ne have "?ys \<noteq> []" by (simp add: py_strip_def)
  then have "\<not> py_isspace (hd ?ys)" by (rule hd_dropWhile)
  moreover from \<open>?ys \<noteq> []\<close> have "last (py_strip s) = hd ?ys"
    by (simp add: py_strip_def last_rev)
  ultimately show ?thesis by simp
qed

lemma search_trailing_id_strip:
  "search_trailing_id (py_strip s) =
     (let digits = rev (takeWhile py_isdecimal (rev (py_strip s)))
      in if digits = [] then None else Some digits)"
proof (cases "py_strip s = []")
  case True
  then show ?thesis by (simp add: search_trailing_id_def)
next
  case False
  from py_strip_last [OF False] have "last (py_strip s) \<noteq> 10"
    by (auto simp add: py_isspace_def)
  with False show ?thesis by (simp add: search_trailing_id_def)
qed

lemma takeWhile_rev_empty:
  "takeWhile P (rev xs) = [] \<longleftrightarrow> xs = [] \<or> \<not> P (last xs)"
  by (cases xs rule: rev_cases) auto

lemma strategy_trailing_id_matches:
  "strategy_trailing_id m \<noteq> None \<longleftrightarrow>
     py_strip (msg_text m) \<noteq> [] \<and> py_isdecimal (last (py_strip (msg_text m)))"
  by (simp add: strategy_trailing_id_def search_trailing_id_strip Let_def takeWhile_rev_empty)

lemma on_delete_command_resolve:
  "on_delete_command db m =
     (case resolve_target m of None \<Rightarrow> (MSG_DELETE_USAGE, db) | Some tg \<Rightarrow> delete_target db tg)"
  by (simp add: on_delete_command_def resolve_target_def first_match_def
      strategy_trailing_id_def strategy_replied_voice_def strategy_replied_summary_def
      delete_target_def Let_def split_beta search_leading_id_def
      split: option.split list.split)


lemma delete_record_by_id_absent:
  "fetch_record_by_id db n = None \<Longrightarrow> delete_record_by_id db n = (False, db)"
proof -
  assume "fetch_record_by_id db n = None"
  then have none: "\<forall>r\<in>set (rows db). col_id r \<noteq> n"
    by (simp add: fetch_record_by_id_def find_None_iff)
  then have "filter (\<lambda>r. col_id r = n) (rows db) = []"
    and "filter (\<lambda>r. col_id r \<noteq> n) (rows db) = rows db"
    by (simp_all add: filter_empty_conv filter_id_conv)
  then show ?thesis
    by (simp add: delete_record_by_id_def Let_def)
qed

lemma delete_record_by_file_id_absent:
  "fetch_record_by_telegram_file_id db f = None \<Longrightarrow>
   delete_record_by_telegram_file_id db f = (False, db)"
proof -
  assume "fetch_record_by_telegram_file_id db f = None"
  then have none: "\<forall>r\<in>set (rows db). col_telegram_file_id r \<noteq> f"
    by (simp add: fetch_record_by_telegram_file_id_def find_None_iff)
  then have "filter (\<lambda>r. col_telegram_file_id r = f) (rows db) = []"
    and "filter (\<lambda>r. col_telegram_file_id r \<noteq> f) (rows db) = rows db"
    by (simp_all add: filter_empty_conv filter_id_conv)
  then show ?thesis
    by (simp add: delete_record_by_telegram_file_id_def Let_def)
qed

lemma delete_target_absent:
  "\<not> target_in_store db tg \<Longrightarrow> delete_target db tg = (MSG_DELETE_NOT_FOUND, db)"
  by (cases tg)
    (simp_all add: target_in_store_def delete_target_def delete_record_by_id_absent
      delete_record_by_file_id_absent)

lemma resolve_target_priority:
  "resolve_target m =
     (case strategy_trailing_id m of
        Some tg \<Rightarrow> Some tg
      | None \<Rightarrow>
          (case strategy_replied_voice m of
             Some tg \<Rightarrow> Some tg
           | None \<Rightarrow> strategy_replied_summary m))"
  by (simp add: resolve_target_def first_match_def split: option.split)

lemmas char_eval = ascii_def py_strip_def py_isspace_def py_isdecimal_def decimal_value_def
  nd_zeros_def py_int_def

lemma not_found_is_not_usage: "MSG_DELETE_NOT_FOUND \<noteq> MSG_DELETE_USAGE"
  by (simp add: MSG_DELETE_NOT_FOUND_def MSG_DELETE_USAGE_def USAGE_LINE_1_def)

lemma fetch_empty_database:
  "fetch_record_by_id empty_database n = None"
  "fetch_record_by_telegram_file_id empty_database f = None"
  by (simp_all add: fetch_record_by_id_def fetch_record_by_telegram_file_id_def
      empty_database_def)

text \<open>
  Claim C4, as stated, fails: trailing characters that are not digits do not always
  disqualify the first strategy. The handler strips the text first, so the text
  \<^verbatim>\<open>"/delete 42 "\<close>, which goes on with a space after its digits, resolves to record 42
  (here, on the empty store, to the answer that the record was not found) and not to
  the usage answer.
\<close>

theorem delete_trailing_space_counterexample:
  "ends_after_digit_run (ascii ''/delete 42 '') \<and>
   strategy_trailing_id \<lparr>msg_text = ascii ''/delete 42 '', reply_to_message = None\<rparr> =
     Some (By_id 42) \<and>
   on_delete_command empty_database
     \<lparr>msg_text = ascii ''/delete 42 '', reply_to_message = None\<rparr> =
     (MSG_DELETE_NOT_FOUND, empty_database) \<and>
   MSG_DELETE_NOT_FOUND \<noteq> MSG_DELETE_USAGE"
proof -
  let ?m = "\<lparr>msg_text = ascii ''/delete 42 '', reply_to_message = None\<rparr>"
  have run: "ends_after_digit_run (ascii ''/delete 42 '')"
    by (simp add: ends_after_digit_run_def char_eval)
  have s1: "strategy_trailing_id ?m = Some (By_id 42)"
    by (simp add: strategy_trailing_id_def search_trailing_id_def char_eval)
  then have "resolve_target ?m = Some (By_id 42)"
    by (simp add: resolve_target_priority)
  then have "on_delete_command empty_database ?m = (MSG_DELETE_NOT_FOUND, empty_database)"
    by (simp add: on_delete_command_resolve delete_target_absent target_in_store_def
          fetch_empty_database)
  with run s1 not_found_is_not_usage show ?thesis by simp
qed

text \<open>
  Claim C4, amended. The answer of \<^verbatim>\<open>on_delete_command\<close> is decided by the first of three
  strategies that matches, in this order: a run of digits at the very end of the
  stripped message text (a \<^verbatim>\<open>#\<close> before it is allowed, not required); the file id of
  the voice attachment of the replied message; the digits after a leading \<^verbatim>\<open>#\<close> in the
  text of the replied message. The first strategy matches exactly when the stripped
  text ends in a digit. So for every message whose text, once stripped of surrounding
  whitespace, is empty or ends in a character that is not a digit, the first strategy
  does not match, and without a replied message the answer is the usage text and the
  store is unchanged.
\<close>

theorem delete_resolution:
  "on_delete_command db m =
     (case resolve_target m of
        None \<Rightarrow> (MSG_DELETE_USAGE, db)
      | Some tg \<Rightarrow> delete_target db tg) \<and>
   resolve_target m =
     (case strategy_trailing_id m of
        Some tg \<Rightarrow> Some tg
      | None \<Rightarrow>
          (case strategy_replied_voice m of
             Some tg \<Rightarrow> Some tg
           | None \<Rightarrow> strategy_replied_summary m)) \<and>
   (strategy_trailing_id m \<noteq> None \<longleftrightarrow>
      py_strip (msg_text m) \<noteq> [] \<and> py_isdecimal (last (py_strip (msg_text m)))) \<and>
   (py_strip (msg_text m) = [] \<or> \<not> py_isdecimal (last (py_strip (msg_text m))) \<longrightarrow>
      strategy_trailing_id m = None \<and>
      (reply_to_message m = None \<longrightarrow> on_delete_command db m = (MSG_DELETE_USAGE, db)))"
proof (intro conjI impI)
  show "on_delete_command db m =
     (case resolve_target m of
        None \<Rightarrow> (MSG_DELETE_USAGE, db)
      | Some tg \<Rightarrow> delete_target db tg)"
    by (rule on_delete_command_resolve)
  show "resolve_target m =
     (case strategy_trailing_id m of
        Some tg \<Rightarrow> Some tg
      | None \<Rightarrow>
          (case strategy_replied_voice m of
             Some tg \<Rightarrow> Some tg
           | None \<Rightarrow> strategy_replied_summary m))"
    by (rule resolve_target_priority)
  show "strategy_trailing_id m \<noteq> None \<longleftrightarrow>
      py_strip (msg_text m) \<noteq> [] \<and> py_isdecimal (last (py_strip (msg_text m)))"
    by (rule strategy_trailing_id_matches)
next
  assume "py_strip (msg_text m) = [] \<or> \<not> py_isdecimal (last (py_strip (msg_text m)))"
  with strategy_trailing_id_matches [of m] show none: "strategy_trailing_id m = None"
    by blast
  assume "reply_to_message m = None"
  with none show "on_delete_command db m = (MSG_DELETE_USAGE, db)"
    by (simp add: on_delete_command_resolve resolve_target_priority
          strategy_replied_voice_def strategy_replied_summary_def)
qed

text \<open>The example of the claim: \<^verbatim>\<open>"delete #42 now"\<close> without a replied message.\<close>

theorem delete_resolution_witness:
  "(py_strip (ascii ''delete #42 now'') = [] \<or>
      \<not> py_isdecimal (last (py_strip (ascii ''delete #42 now'')))) \<and>
   strategy_trailing_id \<lparr>msg_text = ascii ''delete #42 now'', reply_to_message = None\<rparr> = None \<and>
   on_delete_command empty_database
     \<lparr>msg_text = ascii ''delete #42 now'', reply_to_message = None\<rparr> =
     (MSG_DELETE_USAGE, empty_database)"
proof -
  let ?m = "\<lparr>msg_text = ascii ''delete #42 now'', reply_to_message = None\<rparr>"
  have pre: "\<not> py_isdecimal (last (py_strip (ascii ''delete #42 now'')))"
    by (simp add: char_eval)
  then have pre': "py_strip (msg_text ?m) = [] \<or> \<not> py_isdecimal (last (py_strip (msg_text ?m)))"
    by simp
  have nr: "reply_to_message ?m = None" by simp
  from delete_resolution [of empty_database ?m] pre' nr
  have "strategy_trailing_id ?m = None \<and>
      on_delete_command empty_database ?m = (MSG_DELETE_USAGE, empty_database)"
    by blast
  with pre show ?thesis by blast
qed



section \<open>Properties of the voice pipeline\<close>

lemma recognition_notice_distinct: "MSG_RECOGNITION_FAILED \<noteq> MSG_PROCESSING_FAILED"
  by (simp add: MSG_RECOGNITION_FAILED_def MSG_PROCESSING_FAILED_def)

lemma on_voice_long_transcript:
  assumes "download (voice_file_id message) = Inr ogg_bytes"
    and "transcribe ogg_bytes = Inr t"
    and "\<not> length t < 5"
  shows "1 \<le> llm_calls (on_voice llm b download transcribe sent_at db message)"
proof -
  from summarize_result [of llm b t] obtain k where
    "summarize llm b t =
       Inr \<lparr>sr_summary = attempt_output llm b t k, sr_calls = k + 1,
            sr_warned = (\<not> in_allowed llm t (attempt_output llm b t k))\<rparr>"
    by blast
  with assms show ?thesis
    by (simp add: on_voice_def Let_def split_beta)
qed

text \<open>
  Claim C7. When the download succeeds and the transcript is shorter than 5
  characters, \<^verbatim>\<open>on_voice\<close> replaces the processing notice by the notice that no text was
  recognised (a text of its own, not the general failure notice), leaves the store as
  it was and makes no call to the generation endpoint. With a transcript of 5
  characters or more the endpoint is called at least once.
\<close>

theorem on_voice_short_transcript:
  assumes "download (voice_file_id message) = Inr ogg_bytes"
    and "transcribe ogg_bytes = Inr t"
  shows "(length t < 5 \<longrightarrow>
            on_voice llm b download transcribe sent_at db message =
              \<lparr>shown = [MSG_VOICE_PROCESSING, MSG_RECOGNITION_FAILED], store = db,
               llm_calls = 0\<rparr>) \<and>
         (\<not> length t < 5 \<longrightarrow>
            1 \<le> llm_calls (on_voice llm b download transcribe sent_at db message)) \<and>
         MSG_RECOGNITION_FAILED \<noteq> MSG_PROCESSING_FAILED"
proof (intro conjI impI)
  assume "length t < 5"
  with assms show "on_voice llm b download transcribe sent_at db message =
      \<lparr>shown = [MSG_VOICE_PROCESSING, MSG_RECOGNITION_FAILED], store = db, llm_calls = 0\<rparr>"
    by (simp add: on_voice_def Let_def)
next
  assume long: "\<not> length t < 5"
  show "1 \<le> llm_calls (on_voice llm b download transcribe sent_at db message)"
    by (rule on_voice_long_transcript) (fact assms(1), fact assms(2), fact long)
next
  show "MSG_RECOGNITION_FAILED \<noteq> MSG_PROCESSING_FAILED"
    by (rule recognition_notice_distinct)
qed

text \<open>A transcript of two characters.\<close>

theorem on_voice_short_transcript_witness:
  "(\<lambda>f. Inr [79, 103]) (voice_file_id
      \<lparr>voice_file_id = [102], from_user_id = 7, from_username = None\<rparr>) =
     (Inr [79, 103] :: py_exception + bytes) \<and>
   (\<lambda>bs. Inr (ascii ''hi'')) [79, 103 :: nat] = (Inr (ascii ''hi'') :: py_exception + pystr) \<and>
   length (ascii ''hi'') < 5 \<and>
   on_voice
     \<lparr>use_local = True,
      config = \<lparr>SUMMARY_DEVIATION_PERCENT = None, SUMMARY_MAX_TRIES = None\<rparr>\<rparr>
     (\<lambda>k prompt. Response (replicate 200 97))
     (\<lambda>f. Inr [79, 103]) (\<lambda>bs. Inr (ascii ''hi'')) (ascii ''2024-01-01T00:00:00+00:00'')
     empty_database \<lparr>voice_file_id = [102], from_user_id = 7, from_username = None\<rparr> =
   \<lparr>shown = [MSG_VOICE_PROCESSING, MSG_RECOGNITION_FAILED], store = empty_database,
    llm_calls = 0\<rparr>"
proof -
  have len: "length (ascii ''hi'') < 5" by (simp add: ascii_def)
  have dl: "(\<lambda>f. Inr [79, 103]) (voice_file_id
      \<lparr>voice_file_id = [102], from_user_id = 7, from_username = None\<rparr>) =
     (Inr [79, 103] :: py_exception + bytes)"
    by simp
  have tr: "(\<lambda>bs. Inr (ascii ''hi'')) [79, 103 :: nat] = (Inr (ascii ''hi'') :: py_exception + pystr)"
    by simp
  from on_voice_short_transcript [where download = "\<lambda>f. Inr [79, 103]"
      and message = "\<lparr>voice_file_id = [102], from_user_id = 7, from_username = None\<rparr>"
      and ogg_bytes = "[79, 103]" and transcribe = "\<lambda>bs. Inr (ascii ''hi'')"
      and t = "ascii ''hi''"
      and llm = "\<lparr>use_local = True,
        config = \<lparr>SUMMARY_DEVIATION_PERCENT = None, SUMMARY_MAX_TRIES = None\<rparr>\<rparr>"
      and b = "\<lambda>k prompt. Response (replicate 200 97)"
      and sent_at = "ascii ''2024-01-01T00:00:00+00:00''"
      and db = empty_database, OF dl tr] len
  show ?thesis by simp
qed

section \<open>Properties of the edit dialogue\<close>

lemma find_map_update:
  assumes "\<And>r. P r \<Longrightarrow> P (g r)"
  shows "find P xs = Some e \<Longrightarrow> find P (map (\<lambda>r. if P r then g r else r) xs) = Some (g e)"
  using assms by (induction xs) (auto split: if_splits)

lemma fetch_after_update_summary:
  "fetch_record_by_id db rid = Some r \<Longrightarrow>
   fetch_record_by_id (snd (update_summary db rid s)) rid = Some (r\<lparr>col_summarized := s\<rparr>)"
  using find_map_update [of "\<lambda>r. col_id r = rid" "\<lambda>r. r\<lparr>col_summarized := s\<rparr>" "rows db" r]
  by (simp add: fetch_record_by_id_def update_summary_def Let_def)

lemma fetch_after_add_note:
  "fetch_record_by_id db rid = Some r \<Longrightarrow>
   fetch_record_by_id (snd (add_note_to_record db rid n)) rid = Some (r\<lparr>col_note := Some n\<rparr>)"
  using find_map_update [of "\<lambda>r. col_id r = rid" "\<lambda>r. r\<lparr>col_note := Some n\<rparr>" "rows db" r]
  by (simp add: fetch_record_by_id_def add_note_to_record_def Let_def)

lemma fetched_id_positive:
  assumes "wf_database db" and "fetch_record_by_id db rid = Some r"
  shows "rid \<noteq> 0"
proof -
  from assms(2) have "r \<in> set (rows db)" "col_id r = rid"
    by (auto simp add: fetch_record_by_id_def find_Some_iff)
  with assms(1) show ?thesis
    by (auto simp add: wf_database_def list_all_iff)
qed

lemma callback_data_distinct:
  "ascii ''edit'' \<noteq> ascii ''note''" "ascii ''edit'' \<noteq> ascii ''cancel''"
  "ascii ''note'' \<noteq> ascii ''edit''" "ascii ''note'' \<noteq> ascii ''cancel''"
  "ascii ''cancel'' \<noteq> ascii ''edit''" "ascii ''cancel'' \<noteq> ascii ''note''"
  by (simp_all add: ascii_def)

lemma feed_update_ignores_date:
  "feed_update st (u\<lparr>upd_date := d\<rparr>) = feed_update st u"
  by (simp add: feed_update_def)

lemma callback_when_idle:
  "fsm_state (bot_session st) = IDLE \<Longrightarrow>
   feed_update st \<lparr>upd_date = d, upd_payload = Callback_query c\<rparr> = (None, st)"
  by (simp add: feed_update_def)

text \<open>The entry handler opens a session only for a record that exists, with the text of the message.\<close>

lemma entry_opens_session:
  assumes "on_reply_to_summary_for_edit db s m = (a, s')"
    and "fsm_state s = IDLE" and "fsm_state s' = AWAITING_CHOICE"
  shows "\<exists>rid. data_record_id s' = Some rid \<and> data_new_text s' = Some (msg_text m) \<and>
           fetch_record_by_id db rid \<noteq> None"
  using assms
  by (auto simp add: on_reply_to_summary_for_edit_def Let_def
        split: option.splits if_splits)

text \<open>
  Claim C8. A session in \<open>AWAITING_CHOICE\<close> that holds a record id and a non-empty text,
  for a record that exists. The choice \<^verbatim>\<open>edit\<close> writes the text into the summary of that
  record and \<^verbatim>\<open>note\<close> writes it into its note, both through the store's update
  methods; \<^verbatim>\<open>cancel\<close> leaves the store as it is. Each of the three clears the data and
  the state, and in the cleared session no callback query reaches a handler, whatever
  its data and whenever it arrives: a choice is honoured at most once.
\<close>

theorem choice_honoured_once:
  assumes "fsm_state s = AWAITING_CHOICE"
    and "data_record_id s = Some rid" and "data_new_text s = Some txt" and "txt \<noteq> []"
    and "wf_database db" and "fetch_record_by_id db rid = Some r"
  shows
    "feed_update \<lparr>bot_db = db, bot_session = s\<rparr>
        \<lparr>upd_date = d, upd_payload = Callback_query (ascii ''edit'')\<rparr> =
       (Some MSG_SUMMARY_UPDATED,
        \<lparr>bot_db = snd (update_summary db rid txt), bot_session = cleared_session\<rparr>) \<and>
     fetch_record_by_id (snd (update_summary db rid txt)) rid =
       Some (r\<lparr>col_summarized := txt\<rparr>) \<and>
     feed_update \<lparr>bot_db = db, bot_session = s\<rparr>
        \<lparr>upd_date = d, upd_payload = Callback_query (ascii ''note'')\<rparr> =
       (Some MSG_NOTE_ADDED,
        \<lparr>bot_db = snd (add_note_to_record db rid txt), bot_session = cleared_session\<rparr>) \<and>
     fetch_record_by_id (snd (add_note_to_record db rid txt)) rid =
       Some (r\<lparr>col_note := Some txt\<rparr>) \<and>
     feed_update \<lparr>bot_db = db, bot_session = s\<rparr>
        \<lparr>upd_date = d, upd_payload = Callback_query (ascii ''cancel'')\<rparr> =
       (Some MSG_CANCELLED, \<lparr>bot_db = db, bot_session = cleared_session\<rparr>) \<and>
     fsm_state cleared_session = IDLE \<and> pending cleared_session = None \<and>
     (\<forall>db' d' c.
        feed_update \<lparr>bot_db = db', bot_session = cleared_session\<rparr>
          \<lparr>upd_date = d', upd_payload = Callback_query c\<rparr> =
        (None, \<lparr>bot_db = db', bot_session = cleared_session\<rparr>))"
proof -
  from assms(5,6) have "rid \<noteq> 0" by (rule fetched_id_positive)
  with assms(2-4) have pend: "pending s = Some (rid, txt)"
    by (simp add: pending_def)
  from assms(6) have upd: "fst (update_summary db rid txt)"
    by (simp add: update_summary_result)
  from assms(6) have added: "fst (add_note_to_record db rid txt)"
    by (simp add: add_note_result)
  have edit: "feed_update \<lparr>bot_db = db, bot_session = s\<rparr>
        \<lparr>upd_date = d, upd_payload = Callback_query (ascii ''edit'')\<rparr> =
       (Some MSG_SUMMARY_UPDATED,
        \<lparr>bot_db = snd (update_summary db rid txt), bot_session = cleared_session\<rparr>)"
    using assms(1) pend upd
    by (simp add: feed_update_def handle_edit_summary_callback_def split_beta)
  have nt: "feed_update \<lparr>bot_db = db, bot_session = s\<rparr>
        \<lparr>upd_date = d, upd_payload = Callback_query (ascii ''note'')\<rparr> =
       (Some MSG_NOTE_ADDED,
        \<lparr>bot_db = snd (add_note_to_record db rid txt), bot_session = cleared_session\<rparr>)"
    using assms(1) pend added
    by (simp add: feed_update_def handle_add_note_callback_def split_beta callback_data_distinct)
  have cancel: "feed_update \<lparr>bot_db = db, bot_session = s\<rparr>
        \<lparr>upd_date = d, upd_payload = Callback_query (ascii ''cancel'')\<rparr> =
       (Some MSG_CANCELLED, \<lparr>bot_db = db, bot_session = cleared_session\<rparr>)"
    using assms(1)
    by (simp add: feed_update_def handle_cancel_callback_def callback_data_distinct)
  have idle: "fsm_state cleared_session = IDLE" "pending cleared_session = None"
    by (simp_all add: cleared_session_def pending_def)
  have once: "\<forall>db' d' c.
        feed_update \<lparr>bot_db = db', bot_session = cleared_session\<rparr>
          \<lparr>upd_date = d', upd_payload = Callback_query c\<rparr> =
        (None, \<lparr>bot_db = db', bot_session = cleared_session\<rparr>)"
    by (simp add: callback_when_idle idle)
  from edit nt cancel idle once fetch_after_update_summary [OF assms(6)]
    fetch_after_add_note [OF assms(6)]
  show ?thesis by simp
qed


text \<open>A store with record 1 and a session that waits with the text \<^verbatim>\<open>better\<close>: the choice \<^verbatim>\<open>edit\<close>.\<close>

theorem choice_honoured_once_witness:
  "fsm_state \<lparr>fsm_state = AWAITING_CHOICE, data_record_id = Some 1,
        data_new_text = Some (ascii ''better'')\<rparr> = AWAITING_CHOICE \<and>
   ascii ''better'' \<noteq> [] \<and>
   wf_database \<lparr>rows = [\<lparr>col_id = 1, col_telegram_file_id = [102], col_text = ascii ''a long transcript'',
        col_summarized = ascii ''old'', col_note = None, col_sent_at = ascii ''2024-01-01'',
        col_user_id = 7, col_username = None\<rparr>], sqlite_sequence = 1\<rparr> \<and>
   fetch_record_by_id \<lparr>rows = [\<lparr>col_id = 1, col_telegram_file_id = [102], col_text = ascii ''a long transcript'',
        col_summarized = ascii ''old'', col_note = None, col_sent_at = ascii ''2024-01-01'',
        col_user_id = 7, col_username = None\<rparr>], sqlite_sequence = 1\<rparr> 1 = Some \<lparr>col_id = 1, col_telegram_file_id = [102], col_text = ascii ''a long transcript'',
        col_summarized = ascii ''old'', col_note = None, col_sent_at = ascii ''2024-01-01'',
        col_user_id = 7, col_username = None\<rparr> \<and>
   feed_update \<lparr>bot_db = \<lparr>rows = [\<lparr>col_id = 1, col_telegram_file_id = [102], col_text = ascii ''a long transcript'',
        col_summarized = ascii ''old'', col_note = None, col_sent_at = ascii ''2024-01-01'',
        col_user_id = 7, col_username = None\<rparr>], sqlite_sequence = 1\<rparr>, bot_session = \<lparr>fsm_state = AWAITING_CHOICE, data_record_id = Some 1,
        data_new_text = Some (ascii ''better'')\<rparr>\<rparr>
     \<lparr>upd_date = 10, upd_payload = Callback_query (ascii ''edit'')\<rparr> =
   (Some MSG_SUMMARY_UPDATED,
    \<lparr>bot_db = \<lparr>rows = [\<lparr>col_id = 1, col_telegram_file_id = [102], col_text = ascii ''a long transcript'',
        col_summarized = ascii ''better'', col_note = None, col_sent_at = ascii ''2024-01-01'',
        col_user_id = 7, col_username = None\<rparr>], sqlite_sequence = 1\<rparr>, bot_session = cleared_session\<rparr>)"
proof -
  let ?db = "\<lparr>rows = [\<lparr>col_id = 1, col_telegram_file_id = [102], col_text = ascii ''a long transcript'',
        col_summarized = ascii ''old'', col_note = None, col_sent_at = ascii ''2024-01-01'',
        col_user_id = 7, col_username = None\<rparr>], sqlite_sequence = 1\<rparr>"
  let ?s = "\<lparr>fsm_state = AWAITING_CHOICE, data_record_id = Some 1,
        data_new_text = Some (ascii ''better'')\<rparr>"
  let ?r = "\<lparr>col_id = 1, col_telegram_file_id = [102], col_text = ascii ''a long transcript'',
        col_summarized = ascii ''old'', col_note = None, col_sent_at = ascii ''2024-01-01'',
        col_user_id = 7, col_username = None\<rparr>"
  have a1: "fsm_state ?s = AWAITING_CHOICE" by simp
  have a2: "data_record_id ?s = Some 1" by simp
  have a3: "data_new_text ?s = Some (ascii ''better'')" by simp
  have a4: "ascii ''better'' \<noteq> []" by (simp add: ascii_def)
  have a5: "wf_database ?db" by (simp add: wf_database_def)
  have a6: "fetch_record_by_id ?db 1 = Some ?r" by (simp add: fetch_record_by_id_def)
  have u: "snd (update_summary ?db 1 (ascii ''better'')) = \<lparr>rows = [\<lparr>col_id = 1, col_telegram_file_id = [102], col_text = ascii ''a long transcript'',
        col_summarized = ascii ''better'', col_note = None, col_sent_at = ascii ''2024-01-01'',
        col_user_id = 7, col_username = None\<rparr>], sqlite_sequence = 1\<rparr>"
    by (simp add: update_summary_def)
  from choice_honoured_once [OF a1 a2 a3 a4 a5 a6, of 10] a1 a4 a5 a6 u
  show ?thesis by simp
qed

text \<open>
  Claim C9 on the dispatcher of bot/telegram_handler.py. Record 3 exists; at time 0 the
  user replies \<^verbatim>\<open>better\<close> to the summary message of record 3, which opens the session;
  301 seconds later, with nothing in between, the callback query \<^verbatim>\<open>edit\<close> arrives. The
  session is still open, the handler runs and the summary of record 3 is overwritten.
\<close>

theorem edit_after_five_minutes:
  "fsm_state (bot_session (feed_updates
      \<lparr>bot_db = \<lparr>rows = [\<lparr>col_id = 3, col_telegram_file_id = [102], col_text = ascii ''a long transcript'',
        col_summarized = ascii ''old'', col_note = None, col_sent_at = ascii ''2024-01-01'',
        col_user_id = 7, col_username = None\<rparr>], sqlite_sequence = 3\<rparr>, bot_session = cleared_session\<rparr>
      [\<lparr>upd_date = 0,
        upd_payload = Text_message
          \<lparr>msg_text = ascii ''better'',
           reply_to_message =
             Some \<lparr>reply_voice = None,
                   reply_text = Some (SUMMARY_REPLY_HEADER 3 (ascii ''old''))\<rparr>\<rparr>\<rparr>])) =
     AWAITING_CHOICE \<and>
   feed_updates
      \<lparr>bot_db = \<lparr>rows = [\<lparr>col_id = 3, col_telegram_file_id = [102], col_text = ascii ''a long transcript'',
        col_summarized = ascii ''old'', col_note = None, col_sent_at = ascii ''2024-01-01'',
        col_user_id = 7, col_username = None\<rparr>], sqlite_sequence = 3\<rparr>, bot_session = cleared_session\<rparr>
      [\<lparr>upd_date = 0,
        upd_payload = Text_message
          \<lparr>msg_text = ascii ''better'',
           reply_to_message =
             Some \<lparr>reply_voice = None,
                   reply_text = Some (SUMMARY_REPLY_HEADER 3 (ascii ''old''))\<rparr>\<rparr>\<rparr>,
       \<lparr>upd_date = 301, upd_payload = Callback_query (ascii ''edit'')\<rparr>] =
     \<lparr>bot_db = \<lparr>rows = [\<lparr>col_id = 3, col_telegram_file_id = [102], col_text = ascii ''a long transcript'',
        col_summarized = ascii ''better'', col_note = None, col_sent_at = ascii ''2024-01-01'',
        col_user_id = 7, col_username = None\<rparr>], sqlite_sequence = 3\<rparr>, bot_session = cleared_session\<rparr>"
proof -
  let ?db = "\<lparr>rows = [\<lparr>col_id = 3, col_telegram_file_id = [102], col_text = ascii ''a long transcript'',
        col_summarized = ascii ''old'', col_note = None, col_sent_at = ascii ''2024-01-01'',
        col_user_id = 7, col_username = None\<rparr>], sqlite_sequence = 3\<rparr>"
  let ?m = "\<lparr>msg_text = ascii ''better'',
           reply_to_message =
             Some \<lparr>reply_voice = None,
                   reply_text = Some (SUMMARY_REPLY_HEADER 3 (ascii ''old''))\<rparr>\<rparr>"
  let ?s = "\<lparr>fsm_state = AWAITING_CHOICE, data_record_id = Some 3,
        data_new_text = Some (ascii ''better'')\<rparr>"
  have lead: "search_leading_id (SUMMARY_REPLY_HEADER 3 (ascii ''old'')) = Some [51]"
    by (simp add: search_leading_id_def SUMMARY_REPLY_HEADER_def py_str_of_nat.simps
          REPLY_HEADER_PART_2_def py_isdecimal_def decimal_value_def nd_zeros_def)
  have id1: "py_int [51] = 3"
    by (simp add: py_int_def decimal_value_def nd_zeros_def)
  have ne: "SUMMARY_REPLY_HEADER 3 (ascii ''old'') \<noteq> []"
    by (simp add: SUMMARY_REPLY_HEADER_def)
  have entry: "on_reply_to_summary_for_edit ?db cleared_session ?m =
      (MSG_EDIT_OR_ADD_NOTE_PROMPT, ?s)"
    by (simp add: on_reply_to_summary_for_edit_def lead id1 ne fetch_record_by_id_def
          cleared_session_def)
  have plain: "ascii ''better'' \<noteq> []" "hd (ascii ''better'') \<noteq> 47"
    by (simp_all add: ascii_def)
  have step1: "feed_update \<lparr>bot_db = ?db, bot_session = cleared_session\<rparr>
      \<lparr>upd_date = 0, upd_payload = Text_message ?m\<rparr> =
      (Some MSG_EDIT_OR_ADD_NOTE_PROMPT, \<lparr>bot_db = ?db, bot_session = ?s\<rparr>)"
    using plain by (simp add: feed_update_def entry)
  have step2: "feed_update \<lparr>bot_db = ?db, bot_session = ?s\<rparr>
      \<lparr>upd_date = 301, upd_payload = Callback_query (ascii ''edit'')\<rparr> =
      (Some MSG_SUMMARY_UPDATED,
       \<lparr>bot_db = \<lparr>rows = [\<lparr>col_id = 3, col_telegram_file_id = [102], col_text = ascii ''a long transcript'',
        col_summarized = ascii ''better'', col_note = None, col_sent_at = ascii ''2024-01-01'',
        col_user_id = 7, col_username = None\<rparr>], sqlite_sequence = 3\<rparr>, bot_session = cleared_session\<rparr>)"
    using plain
    by (simp add: feed_update_def handle_edit_summary_callback_def pending_def
          update_summary_def)
  show ?thesis
    by (simp add: step1 step2)
qed

end
